theory Spec2Isabelle
  imports Complex_Main "HOL-Library.AList" "HOL-Library.Multiset"
begin

section \<open>Documents\<close>

text \<open>
  Cluster objects and oracle results are Go values of type \<^verbatim>\<open>interface{}\<close> holding decoded
  JSON: nil, a bool, a float64, a string, a slice or a \<^verbatim>\<open>map[string]interface{}\<close>.
  An object is kept as an association list; the order of the list is the order in which
  a \<^verbatim>\<open>range\<close> loop happens to visit the Go map, which Go leaves open, so every theorem
  below is stated for all lists. A float64 is read as a real number: NaN and the
  infinities, which JSON cannot carry, are outside the model.
\<close>

datatype jv =
    JNull
  | JBool bool
  | JNum real
  | JStr string
  | JArr "jv list"
  | JObj "(string \<times> jv) list"

type_synonym obj = "(string \<times> jv) list"

text \<open>The comma-ok type assertions \<^verbatim>\<open>x.(map[string]interface{})\<close> and \<^verbatim>\<open>x.(string)\<close> on the
  result of a map lookup (a missing key yields nil, which fails both).\<close>

fun asObj :: "jv option \<Rightarrow> obj option" where
  "asObj (Some (JObj m)) = Some m"
| "asObj _ = None"

fun asStr :: "jv option \<Rightarrow> string option" where
  "asStr (Some (JStr s)) = Some s"
| "asStr _ = None"

text \<open>Assignment \<^verbatim>\<open>m[k] = v\<close> on a Go map.\<close>

definition setKey :: "string \<Rightarrow> jv \<Rightarrow> obj \<Rightarrow> obj" where
  "setKey k v m = AList.update k v m"

section \<open>Requests, errors, results\<close>

text \<open>The Binding Record posted to the control plane (struct \<^verbatim>\<open>binding\<close> with its
  \<^verbatim>\<open>metadata\<close> and \<^verbatim>\<open>target\<close>), and the HTTP request carrying it.\<close>

record metadata =
  mName :: string
  mNamespace :: string

record target =
  tAPIVersion :: string
  tKind :: string
  tName :: string

record binding =
  bAPIVersion :: string
  bKind :: string
  bMetadata :: metadata
  bTarget :: target

record request =
  reqMethod :: string
  reqURL :: string
  reqBody :: binding

datatype err =
    MalformedObject jv             \<comment> \<open>\<^verbatim>\<open>fmt.Errorf("malformed object: %v", obj)\<close>\<close>
  | MalformedPod obj               \<comment> \<open>\<^verbatim>\<open>fmt.Errorf("malformed pod: %v", pod)\<close>\<close>
  | NotFound string string         \<comment> \<open>a store write whose path does not exist\<close>
  | HTTPError request int          \<comment> \<open>\<^verbatim>\<open>httpErr(req, resp)\<close>\<close>
  | External string                \<comment> \<open>an error handed back by a collaborator\<close>

text \<open>A Go function returning \<^verbatim>\<open>error\<close> yields \<open>None\<close> for nil. \<^verbatim>\<open>schedulePod\<close> can also
  panic (an unchecked type assertion), which ends the call without a return value.\<close>

datatype result = Return "err option" | Panic

section \<open>The Mirror and the trace of effects\<close>

datatype patchOp = AddOp | ReplaceOp | RemoveOp

datatype logline =
    LogTxnFailed err
  | LogUndefined "jv option"
  | LogMalformed "jv option"
  | LogNoNodes "jv option"
  | LogBindFailed "jv option" err
  | LogScheduled "jv option" string

datatype event =
    TxnOpened
  | TxnClosed
  | Queried obj
  | Wrote patchOp string string "jv option"
  | Posted request
  | Logged logline

text \<open>The Mirror holds, under \<^verbatim>\<open>data.<resourceType>\<close>, one document per uid. The state of a
  run is the Mirror together with the sequence of effects performed so far (transactions
  opened and closed, oracle queries, store writes, HTTP posts, log lines); timings are
  left out.\<close>

type_synonym mirror = "string \<rightharpoonup> (string \<rightharpoonup> jv)"

record state =
  mirror :: mirror
  trace :: "event list"

definition emit :: "event \<Rightarrow> state \<Rightarrow> state" where
  "emit e st = st\<lparr>trace := trace st @ [e]\<rparr>"

text \<open>
  Modelled from the spec: the Mirror's write contract
  \<^verbatim>\<open>Write(handle, op \<in> {Add, Replace, Remove}, path, document) \<rightarrow> error\<close> of section 6;
  the storage engine belongs to the policy engine and is not among the sources. A path
  is \<^verbatim>\<open>data.<resourceType>[uid]\<close>. The three operations are the JSON-Patch operations
  they are named after: Add is an upsert below an existing \<^verbatim>\<open>data.<resourceType>\<close>,
  Replace and Remove need the entry to exist. A write takes effect at once.
\<close>

definition applyWrite :: "mirror \<Rightarrow> patchOp \<Rightarrow> string \<Rightarrow> string \<Rightarrow> jv option \<Rightarrow> err + mirror" where
  "applyWrite m op rt uid v =
     (case m rt of
        None \<Rightarrow> Inl (NotFound rt uid)
      | Some d \<Rightarrow>
          (case op of
             AddOp \<Rightarrow> Inr (m(rt \<mapsto> d(uid := v)))
           | ReplaceOp \<Rightarrow>
               (if d uid = None then Inl (NotFound rt uid) else Inr (m(rt \<mapsto> d(uid := v))))
           | RemoveOp \<Rightarrow>
               (if d uid = None then Inl (NotFound rt uid) else Inr (m(rt \<mapsto> d(uid := None))))))"

text \<open>\<^verbatim>\<open>s.store.Write(txn, op, path, value)\<close>: the call is recorded, then applied.\<close>

definition storeWrite :: "state \<Rightarrow> patchOp \<Rightarrow> string \<Rightarrow> string \<Rightarrow> jv option \<Rightarrow> err option \<times> state" where
  "storeWrite st op rt uid v =
     (let st1 = emit (Wrote op rt uid v) st in
      case applyWrite (mirror st1) op rt uid v of
        Inl e \<Rightarrow> (Some e, st1)
      | Inr m' \<Rightarrow> (None, st1\<lparr>mirror := m'\<rparr>))"

section \<open>Collaborators\<close>

text \<open>What the oracle hands back: \<^verbatim>\<open>topdown.Undefined\<close> or a value.\<close>

datatype qresult = Undefined | Value jv

record ranking =
  nodeName :: string
  weight :: real

type_synonym rankings = "ranking list"

text \<open>
  The calls that leave the package are parameters of the model:
  \<^item> \<open>newTransaction\<close>: the error of \<^verbatim>\<open>s.store.NewTransaction()\<close>, if any, in a given state;
  \<^item> \<open>query\<close>: \<^verbatim>\<open>topdown.Query\<close> on the Mirror with the pod bound to \<^verbatim>\<open>requested_pod\<close>;
  \<^item> \<open>sortRankings\<close>: the effect of \<^verbatim>\<open>sort.Sort\<close> on the slice;
  \<^item> \<open>baseURLFor\<close>, \<open>newRequest\<close>, \<open>clientFor\<close>, \<open>httpDo\<close>: the base URL of the control
    plane, the error of \<^verbatim>\<open>http.NewRequest\<close> for a URL, the error of \<^verbatim>\<open>clientFor\<close>, and the
    outcome of \<^verbatim>\<open>client.Do\<close> (a transport error or the status code of the response);
  \<^item> \<open>refParses\<close>: whether \<^verbatim>\<open>ast.MustParseRef\<close> accepts the text
    \<^verbatim>\<open>fmt.Sprintf("data.%v[%q]", resourceType, uid)\<close>. The verb \<^verbatim>\<open>%q\<close> writes the uid as a Go
    string literal, which need not be a string of the policy language (a control
    character comes out as \<^verbatim>\<open>\x01\<close>); where the text is refused, \<^verbatim>\<open>MustParseRef\<close> panics.
\<close>

record env =
  newTransaction :: "state \<Rightarrow> err option"
  query :: "mirror \<Rightarrow> obj \<Rightarrow> err + qresult"
  sortRankings :: "rankings \<Rightarrow> rankings"
  baseURLFor :: string
  newRequest :: "string \<Rightarrow> err option"
  clientFor :: "err option"
  httpDo :: "request \<Rightarrow> err + int"
  refParses :: "string \<Rightarrow> string \<Rightarrow> bool"

text \<open>\<^verbatim>\<open>rankings.Less\<close>.\<close>

definition Less :: "ranking \<Rightarrow> ranking \<Rightarrow> bool" where
  "Less a b = (weight a < weight b)"

text \<open>What \<^verbatim>\<open>sort.Sort\<close> promises for a \<^verbatim>\<open>Less\<close> that is a strict weak order: the same
  elements, and no element \<^verbatim>\<open>Less\<close> than one before it. It is not stable.\<close>

definition sortContract :: "(rankings \<Rightarrow> rankings) \<Rightarrow> bool" where
  "sortContract srt =
     (\<forall>rs. mset (srt rs) = mset rs \<and> sorted_wrt (\<lambda>a b. \<not> Less b a) (srt rs))"

section \<open>The scheduler\<close>

definition getMetadata :: "string \<Rightarrow> jv \<Rightarrow> err + string" where
  "getMetadata key obj =
     (case obj of
        JObj ob \<Rightarrow>
          (case asObj (map_of ob ''metadata'') of
             Some m \<Rightarrow>
               (case asStr (map_of m key) of
                  Some u \<Rightarrow> Inr u
                | None \<Rightarrow> Inl (MalformedObject obj))
           | None \<Rightarrow> Inl (MalformedObject obj))
      | _ \<Rightarrow> Inl (MalformedObject obj))"

definition getUID :: "jv \<Rightarrow> err + string" where
  "getUID obj = getMetadata ''uid'' obj"

definition getNodeName :: "obj \<Rightarrow> err + string" where
  "getNodeName pod =
     (case asObj (map_of pod ''spec'') of
        Some m \<Rightarrow>
          (case asStr (map_of m ''nodeName'') of
             Some v \<Rightarrow> Inr v
           | None \<Rightarrow> Inl (MalformedPod pod))
      | None \<Rightarrow> Inl (MalformedPod pod))"

text \<open>\<^verbatim>\<open>bindPod\<close>. Encoding the record as JSON cannot fail (it holds strings only), so
  the request body is the record itself.\<close>

definition bindPod :: "env \<Rightarrow> state \<Rightarrow> obj \<Rightarrow> err option \<times> state" where
  "bindPod env st pod =
     (case getMetadata ''name'' (JObj pod) of
        Inl e \<Rightarrow> (Some e, st)
      | Inr podName \<Rightarrow>
     (case getNodeName pod of
        Inl e \<Rightarrow> (Some e, st)
      | Inr node \<Rightarrow>
     (case getMetadata ''namespace'' (JObj pod) of
        Inl e \<Rightarrow> (Some e, st)
      | Inr namespace \<Rightarrow>
     (let b = \<lparr>bAPIVersion = ''v1'', bKind = ''Binding'',
                bMetadata = \<lparr>mName = podName, mNamespace = namespace\<rparr>,
                bTarget = \<lparr>tAPIVersion = ''v1'', tKind = ''Node'', tName = node\<rparr>\<rparr>;
          path = baseURLFor env @ ''/namespaces/'' @ namespace @ ''/bindings'';
          req = \<lparr>reqMethod = ''POST'', reqURL = path, reqBody = b\<rparr>
      in case newRequest env path of
           Some e \<Rightarrow> (Some e, st)
         | None \<Rightarrow>
      (case clientFor env of
           Some e \<Rightarrow> (Some e, st)
         | None \<Rightarrow>
      (case httpDo env req of
           Inl e \<Rightarrow> (Some e, emit (Posted req) st)
         | Inr code \<Rightarrow>
             (if code > 201 then (Some (HTTPError req code), emit (Posted req) st)
              else (None, emit (Posted req) st))))))))"

text \<open>
  \<^verbatim>\<open>schedulePod\<close>, in the order of the source. Its last part (the Mirror write, the
  binding, the compensating write):
\<close>

definition schedulePod_commit ::
  "env \<Rightarrow> state \<Rightarrow> string \<Rightarrow> jv option \<Rightarrow> string \<Rightarrow> obj \<Rightarrow> result \<times> state" where
  "schedulePod_commit env st uid podName node pod =
     (case storeWrite st AddOp ''pods'' uid (Some (JObj pod)) of
        (Some e, st1) \<Rightarrow> (Return (Some e), st1)
      | (None, st1) \<Rightarrow>
          (case bindPod env st1 pod of
             (Some e, st2) \<Rightarrow>
               (case storeWrite (emit (Logged (LogBindFailed podName e)) st2)
                       RemoveOp ''pods'' uid None of
                  (Some e2, st3) \<Rightarrow> (Return (Some e2), st3)
                | (None, st3) \<Rightarrow> (Return (Some e), st3))
           | (None, st2) \<Rightarrow>
               (Return None, emit (Logged (LogScheduled podName node)) st2)))"

text \<open>The sort, the choice of the last element and the assignment
  \<^verbatim>\<open>spec["nodeName"] = nodeName\<close>. The pod is a Go map, so the assignment is seen by the
  caller: the pod as it is after the call is part of what the model returns. The
  assertion \<^verbatim>\<open>pod["spec"].(map[string]interface{})\<close> is unchecked and panics when it fails.
  The path \<^verbatim>\<open>data.pods[uid]\<close> is parsed after the assignment and before the write; a
  text that does not parse is a panic of \<^verbatim>\<open>ast.MustParseRef\<close>.\<close>

definition schedulePod_select ::
  "env \<Rightarrow> state \<Rightarrow> string \<Rightarrow> jv option \<Rightarrow> rankings \<Rightarrow> obj \<Rightarrow> result \<times> state \<times> obj" where
  "schedulePod_select env st uid podName rs0 pod =
     (let rs = sortRankings env rs0 in
      if length rs = 0 then (Return None, emit (Logged (LogNoNodes podName)) st, pod)
      else
        (let node = nodeName (rs ! (length rs - 1)) in
         case asObj (map_of pod ''spec'') of
           None \<Rightarrow> (Panic, st, pod)
         | Some spec \<Rightarrow>
             (let pod' = setKey ''spec'' (JObj (setKey ''nodeName'' (JStr node) spec)) pod in
              if \<not> refParses env ''pods'' uid then (Panic, st, pod')
              else
                (case schedulePod_commit env st uid podName node pod' of
                   (r, st') \<Rightarrow> (r, st', pod')))))"

text \<open>The loop over the oracle's mapping; \<^verbatim>\<open>v.(float64)\<close> is unchecked, \<open>None\<close> is its panic.\<close>

fun rankLoop :: "obj \<Rightarrow> rankings \<Rightarrow> rankings option" where
  "rankLoop [] acc = Some acc"
| "rankLoop ((k, v) # rest) acc =
     (case v of
        JNum w \<Rightarrow> rankLoop rest (acc @ [\<lparr>nodeName = k, weight = w\<rparr>])
      | _ \<Rightarrow> None)"

text \<open>The query and the switch on the type of its result, inside the transaction.\<close>

definition schedulePod_query :: "env \<Rightarrow> state \<Rightarrow> string \<Rightarrow> obj \<Rightarrow> result \<times> state \<times> obj" where
  "schedulePod_query env st uid pod =
     (case asObj (map_of pod ''metadata'') of
        None \<Rightarrow> (Panic, st, pod)
      | Some md \<Rightarrow>
          (let podName = map_of md ''name'' in
           case query env (mirror st) pod of
             Inl e \<Rightarrow> (Return (Some e), emit (Queried pod) st, pod)
           | Inr res \<Rightarrow>
               (let st1 = emit (Queried pod) st in
                case res of
                  Value (JObj m) \<Rightarrow>
                    (case rankLoop m [] of
                       None \<Rightarrow> (Panic, st1, pod)
                     | Some rs \<Rightarrow> schedulePod_select env st1 uid podName rs pod)
                | Undefined \<Rightarrow> (Return None, emit (Logged (LogUndefined podName)) st1, pod)
                | Value _ \<Rightarrow> (Return None, emit (Logged (LogMalformed podName)) st1, pod))))"

text \<open>The whole function. \<^verbatim>\<open>ast.InterfaceToValue\<close> accepts every decoded JSON document, so
  its error does not arise; the deferred \<^verbatim>\<open>Close\<close> runs on every way out of the
  transaction, a panic included.\<close>

definition schedulePod :: "env \<Rightarrow> state \<Rightarrow> obj \<Rightarrow> result \<times> state \<times> obj" where
  "schedulePod env st pod =
     (case getUID (JObj pod) of
        Inl e \<Rightarrow> (Return (Some e), st, pod)
      | Inr uid \<Rightarrow>
          (case newTransaction env st of
             Some e \<Rightarrow> (Return (Some e), emit (Logged (LogTxnFailed e)) st, pod)
           | None \<Rightarrow>
               (case schedulePod_query env (emit TxnOpened st) uid pod of
                  (r, st1, pod') \<Rightarrow> (r, emit TxnClosed st1, pod'))))"

section \<open>Actions\<close>

text \<open>
  Modelled from the spec: the payload types \<^verbatim>\<open>resync\<close> and \<^verbatim>\<open>sync\<close> and the constants
  \<^verbatim>\<open>added\<close>, \<^verbatim>\<open>modified\<close>, \<^verbatim>\<open>deleted\<close> are declared in a file that is not among the sources.
  A Change Event is a Resync (a sequence of documents), an Incremental event tagged
  added, modified or deleted and carrying one document, or an error.
\<close>

datatype syncType = Added | Modified | Deleted

datatype payload =
    Resync "jv list"
  | Sync syncType obj
  | Failure err
  | Other

fun scheduleItems :: "env \<Rightarrow> state \<Rightarrow> jv list \<Rightarrow> result \<times> state \<times> jv list" where
  "scheduleItems env st [] = (Return None, st, [])"
| "scheduleItems env st (item # rest) =
     (case item of
        JObj pod \<Rightarrow>
          (case schedulePod env st pod of
             (Return None, st1, pod') \<Rightarrow>
               (case scheduleItems env st1 rest of
                  (r, st2, rest') \<Rightarrow> (r, st2, JObj pod' # rest'))
           | (r, st1, pod') \<Rightarrow> (r, st1, JObj pod' # rest))
      | _ \<Rightarrow> (Panic, st, item # rest))"

definition schedule :: "env \<Rightarrow> state \<Rightarrow> string \<Rightarrow> payload \<Rightarrow> result \<times> state \<times> payload" where
  "schedule env st resourceType pl =
     (case pl of
        Resync items \<Rightarrow>
          (case scheduleItems env st items of (r, st1, items') \<Rightarrow> (r, st1, Resync items'))
      | Sync ty ob \<Rightarrow>
          (if ty = Added
           then (case schedulePod env st ob of (r, st1, ob') \<Rightarrow> (r, st1, Sync ty ob'))
           else (Return None, st, pl))
      | Failure e \<Rightarrow> (Return (Some e), st, pl)
      | Other \<Rightarrow> (Return None, st, pl))"

text \<open>\<^verbatim>\<open>patchOp\<close>: the uid, the path (a panic of \<^verbatim>\<open>ast.MustParseRef\<close> when its text does not
  parse, before any transaction), the transaction, the write.\<close>

definition patchOp :: "env \<Rightarrow> state \<Rightarrow> string \<Rightarrow> patchOp \<Rightarrow> jv \<Rightarrow> result \<times> state" where
  "patchOp env st resourceType op ob =
     (case getUID ob of
        Inl e \<Rightarrow> (Return (Some e), st)
      | Inr uid \<Rightarrow>
          (if \<not> refParses env resourceType uid then (Panic, st)
           else
             (case newTransaction env st of
                Some e \<Rightarrow> (Return (Some e), st)
              | None \<Rightarrow>
                  (case storeWrite (emit TxnOpened st) op resourceType uid (Some ob) of
                     (r, st1) \<Rightarrow> (Return r, emit TxnClosed st1)))))"

fun patchItems :: "env \<Rightarrow> state \<Rightarrow> string \<Rightarrow> jv list \<Rightarrow> result \<times> state" where
  "patchItems env st resourceType [] = (Return None, st)"
| "patchItems env st resourceType (item # rest) =
     (case patchOp env st resourceType AddOp item of
        (Return None, st1) \<Rightarrow> patchItems env st1 resourceType rest
      | (r, st1) \<Rightarrow> (r, st1))"

definition patch :: "env \<Rightarrow> state \<Rightarrow> string \<Rightarrow> payload \<Rightarrow> result \<times> state" where
  "patch env st resourceType pl =
     (case pl of
        Resync items \<Rightarrow> patchItems env st resourceType items
      | Sync ty ob \<Rightarrow>
          (case ty of
             Added \<Rightarrow> patchOp env st resourceType AddOp (JObj ob)
           | Modified \<Rightarrow> patchOp env st resourceType ReplaceOp (JObj ob)
           | Deleted \<Rightarrow> patchOp env st resourceType RemoveOp (JObj ob))
      | Failure e \<Rightarrow> (Return (Some e), st)
      | Other \<Rightarrow> (Return None, st))"

section \<open>Notions used by the statements\<close>

text \<open>The string stored in a document at \<^verbatim>\<open>outer.inner\<close>, if there is one.\<close>

definition strAt :: "obj \<Rightarrow> string \<Rightarrow> string \<Rightarrow> string option" where
  "strAt doc outer inner =
     (case map_of doc outer of
        Some (JObj m) \<Rightarrow> (case map_of m inner of Some (JStr s) \<Rightarrow> Some s | _ \<Rightarrow> None)
      | _ \<Rightarrow> None)"

text \<open>The uid of a document of any shape.\<close>

definition uidAt :: "jv \<Rightarrow> string option" where
  "uidAt v = (case v of JObj doc \<Rightarrow> strAt doc ''metadata'' ''uid'' | _ \<Rightarrow> None)"

text \<open>A mapping from node identifiers to numeric weights, as the oracle returns it.\<close>

definition weightsDoc :: "(string \<times> real) list \<Rightarrow> jv" where
  "weightsDoc ws = JObj (map (\<lambda>(k, w). (k, JNum w)) ws)"

text \<open>The store writes among a sequence of effects.\<close>

fun isWrite :: "event \<Rightarrow> bool" where
  "isWrite (Wrote op rt uid v) = True"
| "isWrite _ = False"

definition writes :: "state \<Rightarrow> event list" where
  "writes st = filter isWrite (trace st)"

text \<open>The request \<^verbatim>\<open>bindPod\<close> builds for a pod name, a node and a namespace.\<close>

definition bindingRequest :: "env \<Rightarrow> string \<Rightarrow> string \<Rightarrow> string \<Rightarrow> request" where
  "bindingRequest env podName node namespace =
     \<lparr>reqMethod = ''POST'',
      reqURL = baseURLFor env @ ''/namespaces/'' @ namespace @ ''/bindings'',
      reqBody = \<lparr>bAPIVersion = ''v1'', bKind = ''Binding'',
                 bMetadata = \<lparr>mName = podName, mNamespace = namespace\<rparr>,
                 bTarget = \<lparr>tAPIVersion = ''v1'', tKind = ''Node'', tName = node\<rparr>\<rparr>\<rparr>"

section \<open>A concrete scenario\<close>

text \<open>The pod of the end-to-end scenario, a Mirror with its root documents, and a
  cluster whose oracle ranks three nodes and whose control plane answers 201.\<close>

definition examplePod :: obj where
  "examplePod =
     [(''metadata'', JObj [(''uid'', JStr ''p1''), (''name'', JStr ''a''), (''namespace'', JStr ''ns'')]),
      (''spec'', JObj []),
      (''status'', JObj [(''phase'', JStr ''Pending'')])]"

definition exampleNode :: obj where
  "exampleNode = [(''metadata'', JObj [(''uid'', JStr ''u2''), (''name'', JStr ''n2'')])]"

definition exampleNode1 :: obj where
  "exampleNode1 = [(''metadata'', JObj [(''uid'', JStr ''u1''), (''name'', JStr ''n1'')])]"

definition exampleState :: state where
  "exampleState =
     \<lparr>mirror = [''pods'' \<mapsto> Map.empty, ''nodes'' \<mapsto> Map.empty], trace = []\<rparr>"

definition exampleWeights :: "(string \<times> real) list" where
  "exampleWeights = [(''n2'', 9/10), (''n1'', 3/10), (''n3'', 9/10)]"

definition exampleEnv :: env where
  "exampleEnv =
     \<lparr>newTransaction = (\<lambda>s. None),
      query = (\<lambda>m p. Inr (Value (weightsDoc exampleWeights))),
      sortRankings = sort_key weight,
      baseURLFor = ''https://k8s/api/v1'',
      newRequest = (\<lambda>u. None),
      clientFor = None,
      httpDo = (\<lambda>r. Inr 201),
      refParses = (\<lambda>rt uid. True)\<rparr>"

text \<open>Variations of the cluster: an oracle with no applicable rule, one that answers
  with an empty mapping, one whose mapping carries a weight that is not a number, a
  control plane that answers 500, a parser of paths that refuses a uid holding the
  control character 0x01, and a client that cannot be built.\<close>

definition undefinedEnv :: env where
  "undefinedEnv = exampleEnv\<lparr>query := (\<lambda>m p. Inr Undefined)\<rparr>"

definition emptyEnv :: env where
  "emptyEnv = exampleEnv\<lparr>query := (\<lambda>m p. Inr (Value (JObj [])))\<rparr>"

definition nonNumericEnv :: env where
  "nonNumericEnv = exampleEnv\<lparr>query := (\<lambda>m p. Inr (Value (JObj [(''node-1'', JStr ''high'')])))\<rparr>"

definition rejectingEnv :: env where
  "rejectingEnv = exampleEnv\<lparr>httpDo := (\<lambda>r. Inr 500)\<rparr>"

definition strictRefEnv :: env where
  "strictRefEnv = exampleEnv\<lparr>refParses := (\<lambda>rt uid. CHR 0x01 \<notin> set uid)\<rparr>"

definition noClientEnv :: env where
  "noClientEnv = exampleEnv\<lparr>clientFor := Some (External ''no transport'')\<rparr>"

text \<open>The pod of the scenario once it has been placed on \<^verbatim>\<open>n3\<close>.\<close>

definition placedPod :: obj where
  "placedPod =
     [(''metadata'', JObj [(''uid'', JStr ''p1''), (''name'', JStr ''a''), (''namespace'', JStr ''ns'')]),
      (''spec'', JObj [(''nodeName'', JStr ''n3'')]),
      (''status'', JObj [(''phase'', JStr ''Pending'')])]"

section \<open>Auxiliary facts\<close>

subsection \<open>Reading fields of a document\<close>

lemma asObj_Some [simp]: "asObj x = Some m \<longleftrightarrow> x = Some (JObj m)"
  by (cases x rule: asObj.cases) auto

lemma asStr_Some [simp]: "asStr x = Some s \<longleftrightarrow> x = Some (JStr s)"
  by (cases x rule: asStr.cases) auto

lemma asObj_None: "asObj x = None \<longleftrightarrow> (\<forall>m. x \<noteq> Some (JObj m))"
  by (cases x rule: asObj.cases) auto

lemma asStr_None: "asStr x = None \<longleftrightarrow> (\<forall>s. x \<noteq> Some (JStr s))"
  by (cases x rule: asStr.cases) auto

lemma strAt_asObj: "strAt doc outer inner = (case asObj (map_of doc outer) of Some m \<Rightarrow> asStr (map_of m inner) | None \<Rightarrow> None)"
  unfolding strAt_def
  by (cases "map_of doc outer" rule: asObj.cases; cases "map_of (the (asObj (map_of doc outer))) inner" rule: asStr.cases) auto

lemma getMetadata_strAt:
  "getMetadata key (JObj doc) = (case strAt doc ''metadata'' key of Some u \<Rightarrow> Inr u | None \<Rightarrow> Inl (MalformedObject (JObj doc)))"
  by (simp add: getMetadata_def strAt_asObj split: option.splits)

lemma getNodeName_strAt:
  "getNodeName pod = (case strAt pod ''spec'' ''nodeName'' of Some u \<Rightarrow> Inr u | None \<Rightarrow> Inl (MalformedPod pod))"
  by (simp add: getNodeName_def strAt_asObj split: option.splits)

lemma getUID_uidAt:
  "getUID v = (case uidAt v of Some u \<Rightarrow> Inr u | None \<Rightarrow> Inl (MalformedObject v))"
proof (cases v)
  case (JObj d)
  then show ?thesis by (simp add: getUID_def uidAt_def getMetadata_strAt split: option.splits)
qed (simp_all add: getUID_def getMetadata_def uidAt_def)

subsection \<open>Effects of the store and of the binding\<close>

lemma emit_simps [simp]: "mirror (emit e st) = mirror st" "trace (emit e st) = trace st @ [e]"
  by (simp_all add: emit_def)

lemma storeWrite_trace [simp]:
  "trace (snd (storeWrite st op rt uid v)) = trace st @ [Wrote op rt uid v]"
  by (simp add: storeWrite_def Let_def split: sum.splits)

lemma storeWrite_fail_mirror:
  "storeWrite st op rt uid v = (Some e, st1) \<Longrightarrow> mirror st1 = mirror st"
  by (auto simp: storeWrite_def Let_def split: sum.splits)

lemma storeWrite_Add:
  "mirror st rt = Some d \<Longrightarrow>
   storeWrite st AddOp rt uid v =
     (None, \<lparr>mirror = (mirror st)(rt \<mapsto> d(uid := v)), trace = trace st @ [Wrote AddOp rt uid v]\<rparr>)"
  by (simp add: storeWrite_def Let_def applyWrite_def emit_def)

lemma storeWrite_Remove:
  "mirror st rt = Some d \<Longrightarrow> d uid = Some x \<Longrightarrow>
   storeWrite st RemoveOp rt uid v =
     (None, \<lparr>mirror = (mirror st)(rt \<mapsto> d(uid := None)), trace = trace st @ [Wrote RemoveOp rt uid v]\<rparr>)"
  by (simp add: storeWrite_def Let_def applyWrite_def emit_def)

lemma bindPod_mirror [simp]: "mirror (snd (bindPod env st pod)) = mirror st"
  by (simp add: bindPod_def Let_def split: sum.splits option.splits)

lemma bindPod_fst: "fst (bindPod env st pod) = fst (bindPod env st' pod)"
  by (simp add: bindPod_def Let_def split: sum.splits option.splits)

lemma bindPod_trace:
  "\<exists>evs. trace (snd (bindPod env st pod)) = trace st @ evs \<and> filter isWrite evs = []"
  by (simp add: bindPod_def Let_def split: sum.splits option.splits)

lemma bindPod_writes [simp]: "writes (snd (bindPod env st pod)) = writes st"
  using bindPod_trace [of env st pod] by (auto simp: writes_def)

lemma bindPod_length: "length (trace st) \<le> length (trace (snd (bindPod env st pod)))"
  using bindPod_trace [of env st pod] by auto

subsection \<open>Every call of schedulePod leaves a mark\<close>

lemma storeWrite_length:
  "storeWrite st op rt uid v = (r, st1) \<Longrightarrow> length (trace st1) = Suc (length (trace st))"
  using storeWrite_trace [of st op rt uid v] by simp

lemma bindPod_length':
  "bindPod env st pod = (r, st1) \<Longrightarrow> length (trace st) \<le> length (trace st1)"
  using bindPod_length [of st env pod] by simp

lemma commit_length:
  assumes "schedulePod_commit env st uid pn node pod = (r, st')"
  shows "length (trace st) \<le> length (trace st')"
proof -
  obtain r1 s1 where w: "storeWrite st AddOp ''pods'' uid (Some (JObj pod)) = (r1, s1)"
    by fastforce
  note l1 = storeWrite_length [OF w]
  show ?thesis
  proof (cases r1)
    case (Some e)
    with assms w l1 show ?thesis by (simp add: schedulePod_commit_def)
  next
    case None
    obtain r2 s2 where b: "bindPod env s1 pod = (r2, s2)" by fastforce
    note l2 = bindPod_length' [OF b]
    show ?thesis
    proof (cases r2)
      case None
      with assms w b l1 l2 \<open>r1 = None\<close> show ?thesis
        by (auto simp: schedulePod_commit_def)
    next
      case (Some e)
      obtain r3 s3 where
        c: "storeWrite (emit (Logged (LogBindFailed pn e)) s2) RemoveOp ''pods'' uid None = (r3, s3)"
        by fastforce
      note l3 = storeWrite_length [OF c]
      from assms w b c l1 l2 l3 \<open>r1 = None\<close> Some show ?thesis
        by (cases r3) (auto simp: schedulePod_commit_def)
    qed
  qed
qed

lemma select_length:
  assumes "schedulePod_select env st uid pn rs pod = (r, st', pod')"
  shows "length (trace st) \<le> length (trace st')"
proof (cases "length (sortRankings env rs) = 0")
  case True
  with assms show ?thesis by (auto simp: schedulePod_select_def)
next
  case False
  show ?thesis
  proof (cases "asObj (map_of pod ''spec'')")
    case None
    with assms False show ?thesis by (auto simp: schedulePod_select_def Let_def)
  next
    case (Some spec)
    with assms False commit_length show ?thesis
      by (auto simp: schedulePod_select_def Let_def split: prod.splits if_splits)
  qed
qed

lemma query_length:
  assumes "schedulePod_query env st uid pod = (r, st', pod')"
  shows "length (trace st) \<le> length (trace st')"
proof (cases "asObj (map_of pod ''metadata'')")
  case None
  with assms show ?thesis by (simp add: schedulePod_query_def)
next
  case (Some md)
  show ?thesis
  proof (cases "query env (mirror st) pod")
    case (Inl e)
    with assms Some show ?thesis by (auto simp: schedulePod_query_def)
  next
    case (Inr res)
    have sel: "\<And>rs m. schedulePod_select env (emit (Queried pod) st) uid (map_of md ''name'') rs pod = (r, st', pod')
       \<Longrightarrow> length (trace st) \<le> length (trace st')"
      using select_length by fastforce
    from assms Some Inr sel show ?thesis
      by (auto simp: schedulePod_query_def Let_def split: qresult.splits jv.splits option.splits)
  qed
qed

lemma schedulePod_not_silent: "schedulePod env st pod \<noteq> (Return None, st, pod)"
proof
  assume a: "schedulePod env st pod = (Return None, st, pod)"
  show False
  proof (cases "getUID (JObj pod)")
    case (Inl e)
    with a show False by (simp add: schedulePod_def)
  next
    case (Inr uid)
    show False
    proof (cases "newTransaction env st")
      case (Some e)
      with a Inr show False by (simp add: schedulePod_def)
    next
      case None
      obtain r1 s1 p1 where q: "schedulePod_query env (emit TxnOpened st) uid pod = (r1, s1, p1)"
        by (metis prod_cases3)
      from query_length [OF q] have "length (trace st) < length (trace (emit TxnClosed s1))"
        by simp
      moreover from a Inr None q have "emit TxnClosed s1 = st" by (simp add: schedulePod_def)
      ultimately show False by simp
    qed
  qed
qed

subsection \<open>The sort and the outcomes without a decision\<close>

lemma strAt_SomeD:
  "strAt doc outer inner = Some s \<Longrightarrow>
   \<exists>m. map_of doc outer = Some (JObj m) \<and> map_of m inner = Some (JStr s)"
  by (auto simp: strAt_asObj split: option.splits)

lemma sortContract_Nil: "sortContract srt \<Longrightarrow> srt [] = []"
  by (auto simp: sortContract_def dest!: spec [where x = "[]"])

lemma sortContract_sort_key: "sortContract (sort_key weight)"
proof -
  have "sorted_wrt (\<lambda>a b. \<not> Less b a) (sort_key weight rs)" for rs
  proof -
    have "sorted (map weight (sort_key weight rs))" by simp
    then show ?thesis by (simp add: sorted_map Less_def not_less)
  qed
  then show ?thesis by (simp add: sortContract_def)
qed

lemma schedulePod_opened:
  assumes "strAt pod ''metadata'' ''uid'' = Some uid" and "newTransaction env st = None"
    and "schedulePod_query env (emit TxnOpened st) uid pod = (r, st1, pod')"
  shows "schedulePod env st pod = (r, emit TxnClosed st1, pod')"
  using assms by (simp add: schedulePod_def getUID_def getMetadata_strAt)

lemma schedulePod_malformed_shape:
  assumes uid: "strAt pod ''metadata'' ''uid'' = Some uid"
    and txn: "newTransaction env st = None"
    and q: "query env (mirror st) pod = Inr (Value v)"
    and shape: "\<forall>m. v \<noteq> JObj m"
  shows "\<exists>st' name. schedulePod env st pod = (Return None, st', pod) \<and>
           mirror st' = mirror st \<and>
           trace st' = trace st @ [TxnOpened, Queried pod, Logged (LogMalformed name), TxnClosed]"
proof -
  from strAt_SomeD [OF uid] obtain md where md: "map_of pod ''metadata'' = Some (JObj md)"
    by blast
  from md q shape have
    "schedulePod_query env (emit TxnOpened st) uid pod =
      (Return None, emit (Logged (LogMalformed (map_of md ''name''))) (emit (Queried pod) (emit TxnOpened st)), pod)"
    by (cases v) (simp_all add: schedulePod_query_def)
  from schedulePod_opened [OF uid txn this] show ?thesis
    by simp
qed

subsection \<open>The binding and the patch, by cases\<close>

lemma bindPod_strAt:
  "bindPod env st pod =
     (case strAt pod ''metadata'' ''name'' of
        None \<Rightarrow> (Some (MalformedObject (JObj pod)), st)
      | Some name \<Rightarrow>
     (case strAt pod ''spec'' ''nodeName'' of
        None \<Rightarrow> (Some (MalformedPod pod), st)
      | Some node \<Rightarrow>
     (case strAt pod ''metadata'' ''namespace'' of
        None \<Rightarrow> (Some (MalformedObject (JObj pod)), st)
      | Some ns \<Rightarrow>
     (case newRequest env (reqURL (bindingRequest env name node ns)) of
        Some e \<Rightarrow> (Some e, st)
      | None \<Rightarrow>
     (case clientFor env of
        Some e \<Rightarrow> (Some e, st)
      | None \<Rightarrow>
     (case httpDo env (bindingRequest env name node ns) of
        Inl e \<Rightarrow> (Some e, emit (Posted (bindingRequest env name node ns)) st)
      | Inr code \<Rightarrow>
          (if 201 < code
           then (Some (HTTPError (bindingRequest env name node ns) code),
                 emit (Posted (bindingRequest env name node ns)) st)
           else (None, emit (Posted (bindingRequest env name node ns)) st))))))))"
  by (simp add: bindPod_def getMetadata_strAt getNodeName_strAt bindingRequest_def Let_def
      split: option.splits sum.splits)

lemma patchOp_Add:
  "patchOp env st rt AddOp ob =
     (case uidAt ob of
        None \<Rightarrow> (Return (Some (MalformedObject ob)), st)
      | Some uid \<Rightarrow>
          (if \<not> refParses env rt uid then (Panic, st)
           else
             (case newTransaction env st of
                Some e \<Rightarrow> (Return (Some e), st)
              | None \<Rightarrow>
                  (case mirror st rt of
                     None \<Rightarrow> (Return (Some (NotFound rt uid)),
                                \<lparr>mirror = mirror st,
                                 trace = trace st @ [TxnOpened, Wrote AddOp rt uid (Some ob), TxnClosed]\<rparr>)
                   | Some d \<Rightarrow> (Return None,
                                \<lparr>mirror = (mirror st)(rt \<mapsto> d(uid \<mapsto> ob)),
                                 trace = trace st @ [TxnOpened, Wrote AddOp rt uid (Some ob), TxnClosed]\<rparr>)))))"
  by (simp add: patchOp_def getUID_uidAt storeWrite_def applyWrite_def emit_def Let_def
      split: option.splits)

text \<open>A uid whose path does not parse: \<^verbatim>\<open>patchOp\<close> panics before it opens a transaction
  (and \<^verbatim>\<open>schedulePod\<close> panics after it has placed the pod and before it writes:
  \<open>schedulePod_unparsable\<close> below).\<close>

lemma patchOp_unparsable:
  "uidAt ob = Some uid \<Longrightarrow> \<not> refParses env rt uid \<Longrightarrow> patchOp env st rt op ob = (Panic, st)"
  by (simp add: patchOp_def getUID_uidAt)

subsection \<open>The choice of the node\<close>

lemma rankLoop_weights:
  "rankLoop (map (\<lambda>(k, w). (k, JNum w)) ws) acc =
     Some (acc @ map (\<lambda>(k, w). \<lparr>nodeName = k, weight = w\<rparr>) ws)"
  by (induction ws arbitrary: acc) auto

lemma sorted_last_max:
  assumes srt: "sortContract srt" and ne: "rs \<noteq> []"
  shows "srt rs \<noteq> [] \<and> srt rs ! (length (srt rs) - 1) \<in> set rs \<and>
         (\<forall>x\<in>set rs. weight x \<le> weight (srt rs ! (length (srt rs) - 1)))"
proof -
  let ?ss = "srt rs"
  from srt have m: "mset ?ss = mset rs" and s: "sorted_wrt (\<lambda>a b. \<not> Less b a) ?ss"
    by (simp_all add: sortContract_def)
  from m have set: "set ?ss = set rs" by (rule mset_eq_setD)
  from m ne have ne': "?ss \<noteq> []" by auto
  then have lst: "?ss ! (length ?ss - 1) \<in> set ?ss" by simp
  have "weight x \<le> weight (?ss ! (length ?ss - 1))" if "x \<in> set ?ss" for x
  proof -
    from that obtain i where i: "i < length ?ss" "x = ?ss ! i" by (auto simp: in_set_conv_nth)
    show ?thesis
    proof (cases "i = length ?ss - 1")
      case True
      with i show ?thesis by simp
    next
      case False
      with i have "i < length ?ss - 1" by simp
      with sorted_wrt_nth_less [OF s, of i "length ?ss - 1"] ne'
      have "\<not> Less (?ss ! (length ?ss - 1)) (?ss ! i)" by simp
      with i show ?thesis by (simp add: Less_def)
    qed
  qed
  with ne' lst set show ?thesis by simp
qed

lemma strAt_setKey:
  "strAt (setKey ''spec'' (JObj (setKey ''nodeName'' (JStr node) spec)) pod) ''spec'' ''nodeName'' =
     Some node"
  by (simp add: strAt_def setKey_def update_conv')

lemma schedulePod_selected:
  assumes uid: "strAt pod ''metadata'' ''uid'' = Some uid"
    and txn: "newTransaction env st = None"
    and srt: "sortContract (sortRankings env)"
    and q: "query env (mirror st) pod = Inr (Value (weightsDoc ws))"
    and ne: "ws \<noteq> []"
    and spec: "map_of pod ''spec'' = Some (JObj spec)"
  shows "\<exists>name node w. (node, w) \<in> set ws \<and> (\<forall>(k, v)\<in>set ws. v \<le> w) \<and>
     snd (snd (schedulePod env st pod)) =
       setKey ''spec'' (JObj (setKey ''nodeName'' (JStr node) spec)) pod \<and>
     (\<not> refParses env ''pods'' uid \<longrightarrow>
        schedulePod env st pod =
          (Panic, emit TxnClosed (emit (Queried pod) (emit TxnOpened st)),
           setKey ''spec'' (JObj (setKey ''nodeName'' (JStr node) spec)) pod)) \<and>
     (refParses env ''pods'' uid \<longrightarrow>
        schedulePod env st pod =
          (fst (schedulePod_commit env (emit (Queried pod) (emit TxnOpened st)) uid name node
                  (setKey ''spec'' (JObj (setKey ''nodeName'' (JStr node) spec)) pod)),
           emit TxnClosed
             (snd (schedulePod_commit env (emit (Queried pod) (emit TxnOpened st)) uid name node
                  (setKey ''spec'' (JObj (setKey ''nodeName'' (JStr node) spec)) pod))),
           setKey ''spec'' (JObj (setKey ''nodeName'' (JStr node) spec)) pod))"
proof -
  from strAt_SomeD [OF uid] obtain md where md: "map_of pod ''metadata'' = Some (JObj md)"
    by blast
  let ?rs = "map (\<lambda>(k, w). \<lparr>nodeName = k, weight = w\<rparr>) ws"
  let ?ss = "sortRankings env ?rs"
  let ?top = "?ss ! (length ?ss - 1)"
  let ?pod' = "setKey ''spec'' (JObj (setKey ''nodeName'' (JStr (nodeName ?top)) spec)) pod"
  let ?st0 = "emit (Queried pod) (emit TxnOpened st)"
  let ?c = "schedulePod_commit env ?st0 uid (map_of md ''name'') (nodeName ?top) ?pod'"
  let ?out = "if refParses env ''pods'' uid then (fst ?c, snd ?c, ?pod') else (Panic, ?st0, ?pod')"
  from ne have "?rs \<noteq> []" by simp
  from sorted_last_max [OF srt this]
  have ne': "?ss \<noteq> []" and top: "?top \<in> set ?rs" and mx: "\<forall>x\<in>set ?rs. weight x \<le> weight ?top"
    by blast+
  from top have in_ws: "(nodeName ?top, weight ?top) \<in> set ws" by auto
  from mx have le: "\<forall>(k, v)\<in>set ws. v \<le> weight ?top" by auto
  from ne' spec have
    "schedulePod_select env ?st0 uid (map_of md ''name'') ?rs pod = ?out"
    by (simp add: schedulePod_select_def Let_def case_prod_beta)
  with md q have "schedulePod_query env (emit TxnOpened st) uid pod = ?out"
    by (simp add: schedulePod_query_def weightsDoc_def rankLoop_weights)
  with uid txn have run: "schedulePod env st pod =
      (if refParses env ''pods'' uid then (fst ?c, emit TxnClosed (snd ?c), ?pod')
       else (Panic, emit TxnClosed ?st0, ?pod'))"
    by (simp add: schedulePod_def getUID_def getMetadata_strAt)
  then have "snd (snd (schedulePod env st pod)) = ?pod'" by simp
  with run in_ws le show ?thesis by (intro exI [of _ "map_of md ''name''"] exI [of _ "nodeName ?top"] exI [of _ "weight ?top"]) simp
qed

lemma schedulePod_unparsable:
  assumes uid: "strAt pod ''metadata'' ''uid'' = Some uid"
    and txn: "newTransaction env st = None"
    and srt: "sortContract (sortRankings env)"
    and q: "query env (mirror st) pod = Inr (Value (weightsDoc ws))"
    and ne: "ws \<noteq> []"
    and spec: "map_of pod ''spec'' = Some (JObj spec)"
    and ref: "\<not> refParses env ''pods'' uid"
  shows "fst (schedulePod env st pod) = Panic \<and>
         fst (snd (schedulePod env st pod)) =
           emit TxnClosed (emit (Queried pod) (emit TxnOpened st))"
  using schedulePod_selected [OF uid txn srt q ne spec] ref by auto

lemma commit_bind_failure:
  assumes root: "mirror st ''pods'' = Some d"
    and bind: "fst (bindPod env s pod) = Some e"
    and run: "schedulePod_commit env st uid name node pod = (r, st')"
  shows "r = Return (Some e) \<and> mirror st' = (mirror st)(''pods'' \<mapsto> d(uid := None)) \<and>
         writes st' = writes st @
           [Wrote AddOp ''pods'' uid (Some (JObj pod)), Wrote RemoveOp ''pods'' uid None]"
proof -
  let ?st1 = "\<lparr>mirror = (mirror st)(''pods'' \<mapsto> d(uid \<mapsto> JObj pod)),
               trace = trace st @ [Wrote AddOp ''pods'' uid (Some (JObj pod))]\<rparr>"
  have w: "storeWrite st AddOp ''pods'' uid (Some (JObj pod)) = (None, ?st1)"
    using root by (simp add: storeWrite_Add)
  obtain st2 where b: "bindPod env ?st1 pod = (Some e, st2)"
    using bind bindPod_fst [of env ?st1 pod s] by (cases "bindPod env ?st1 pod") simp
  from b have m2: "mirror st2 = mirror ?st1"
    using bindPod_mirror [of env ?st1 pod] by simp
  from b have w2: "writes st2 = writes ?st1"
    using bindPod_writes [of env ?st1 pod] by simp
  let ?st2 = "emit (Logged (LogBindFailed name e)) st2"
  have "mirror ?st2 ''pods'' = Some (d(uid \<mapsto> JObj pod))" using m2 by simp
  from storeWrite_Remove [OF this, of uid "JObj pod" None]
  have c: "storeWrite ?st2 RemoveOp ''pods'' uid None =
     (None, \<lparr>mirror = (mirror ?st2)(''pods'' \<mapsto> (d(uid \<mapsto> JObj pod))(uid := None)),
             trace = trace ?st2 @ [Wrote RemoveOp ''pods'' uid None]\<rparr>)"
    by simp
  from run w b c have r: "r = Return (Some e)"
    and st': "st' = \<lparr>mirror = (mirror ?st2)(''pods'' \<mapsto> (d(uid \<mapsto> JObj pod))(uid := None)),
             trace = trace ?st2 @ [Wrote RemoveOp ''pods'' uid None]\<rparr>"
    by (simp_all add: schedulePod_commit_def)
  from st' m2 have "mirror st' = (mirror st)(''pods'' \<mapsto> d(uid := None))" by simp
  moreover from st' w2 have "writes st' = writes st @
           [Wrote AddOp ''pods'' uid (Some (JObj pod)), Wrote RemoveOp ''pods'' uid None]"
    by (simp add: writes_def)
  ultimately show ?thesis using r by simp
qed

subsection \<open>The scenario, run\<close>

text \<open>With the control plane answering 201 the pod of the scenario ends up in the Mirror
  under its uid, placed on the node of greatest weight, after one POST and one line of
  log; with the control plane answering 500 the caller's pod is placed all the same.\<close>

lemmas run_defs = schedulePod_def schedulePod_query_def schedulePod_select_def
  schedulePod_commit_def storeWrite_def applyWrite_def bindPod_strAt bindingRequest_def
  getUID_def getMetadata_strAt strAt_def weightsDoc_def setKey_def emit_def Let_def
  exampleEnv_def exampleState_def examplePod_def exampleWeights_def placedPod_def

lemma rejecting_pod: "snd (snd (schedulePod rejectingEnv exampleState examplePod)) = placedPod"
  by (simp add: run_defs rejectingEnv_def)

lemma accepting_run: "schedulePod exampleEnv exampleState examplePod =
   (Return None,
    \<lparr>mirror = [''nodes'' \<mapsto> Map.empty, ''pods'' \<mapsto> [''p1'' \<mapsto> JObj placedPod]],
     trace = [TxnOpened, Queried examplePod, Wrote AddOp ''pods'' ''p1'' (Some (JObj placedPod)),
              Posted (bindingRequest exampleEnv ''a'' ''n3'' ''ns''),
              Logged (LogScheduled (Some (JStr ''a'')) ''n3''), TxnClosed]\<rparr>,
    placedPod)"
  by (simp add: run_defs)

lemma example_hyps:
  "strAt examplePod ''metadata'' ''uid'' = Some ''p1''"
  "newTransaction exampleEnv exampleState = None" "newTransaction rejectingEnv exampleState = None"
  "sortContract (sortRankings exampleEnv)" "sortContract (sortRankings rejectingEnv)"
  "query exampleEnv (mirror exampleState) examplePod = Inr (Value (weightsDoc exampleWeights))"
  "query rejectingEnv (mirror exampleState) examplePod = Inr (Value (weightsDoc exampleWeights))"
  "exampleWeights \<noteq> []" "distinct (map fst exampleWeights)"
  "map_of examplePod ''spec'' = Some (JObj [])"
  "mirror exampleState ''pods'' = Some Map.empty"
  by (simp_all add: strAt_def examplePod_def exampleEnv_def rejectingEnv_def exampleWeights_def
      exampleState_def sortContract_sort_key)

subsection \<open>A Resync through the patch action\<close>

lemma writes_concat:
  "length uids = length items \<Longrightarrow>
   filter isWrite (concat (map2 (\<lambda>uid item. [TxnOpened, Wrote AddOp rt uid (Some item), TxnClosed]) uids items)) =
     map2 (\<lambda>uid item. Wrote AddOp rt uid (Some item)) uids items"
  by (induction uids items rule: list_induct2) simp_all

lemma patchItems_all:
  assumes "list_all2 (\<lambda>item uid. uidAt item = Some uid) items uids"
    and "list_all (refParses env rt) uids"
    and "\<forall>s. newTransaction env s = None"
    and "mirror st rt = Some d"
  shows "fst (patchItems env st rt items) = Return None \<and>
     mirror (snd (patchItems env st rt items)) =
       (mirror st)(rt \<mapsto> d ++ map_of (rev (zip uids items))) \<and>
     trace (snd (patchItems env st rt items)) =
       trace st @ concat (map2 (\<lambda>uid item.
          [TxnOpened, Wrote AddOp rt uid (Some item), TxnClosed]) uids items)"
  using assms
proof (induction items uids arbitrary: st d rule: list_all2_induct)
  case Nil
  then show ?case by (simp add: map_upd_triv)
next
  case (Cons item items uid uids)
  let ?st1 = "\<lparr>mirror = (mirror st)(rt \<mapsto> d(uid \<mapsto> item)),
               trace = trace st @ [TxnOpened, Wrote AddOp rt uid (Some item), TxnClosed]\<rparr>"
  from Cons.hyps(1) Cons.prems have p: "patchOp env st rt AddOp item = (Return None, ?st1)"
    by (simp add: patchOp_Add)
  have r: "mirror ?st1 rt = Some (d(uid \<mapsto> item))" by simp
  have "map_of (rev (zip (uid # uids) (item # items))) =
          [uid \<mapsto> item] ++ map_of (rev (zip uids items))"
    by simp
  then have "d ++ map_of (rev (zip (uid # uids) (item # items))) =
          (d ++ [uid \<mapsto> item]) ++ map_of (rev (zip uids items))"
    by (simp only: map_add_assoc)
  then have e: "d ++ map_of (rev (zip (uid # uids) (item # items))) =
          d(uid \<mapsto> item) ++ map_of (rev (zip uids items))"
    by simp
  have step: "patchItems env st rt (item # items) = patchItems env ?st1 rt items"
    using p by simp
  from Cons.prems(1) have ps: "list_all (refParses env rt) uids" by simp
  from Cons.IH [OF ps Cons.prems(2) r]
  have 1: "fst (patchItems env ?st1 rt items) = Return None"
    and 2: "mirror (snd (patchItems env ?st1 rt items)) =
       (mirror ?st1)(rt \<mapsto> d(uid \<mapsto> item) ++ map_of (rev (zip uids items)))"
    and 3: "trace (snd (patchItems env ?st1 rt items)) =
       trace ?st1 @ concat (map2 (\<lambda>uid item.
          [TxnOpened, Wrote AddOp rt uid (Some item), TxnClosed]) uids items)"
    by blast+
  have m: "(mirror ?st1)(rt \<mapsto> d(uid \<mapsto> item) ++ map_of (rev (zip uids items))) =
      (mirror st)(rt \<mapsto> d(uid \<mapsto> item) ++ map_of (rev (zip uids items)))"
    by simp
  show ?case unfolding step e using 1 2 3 m by simp
qed

text \<open>A snapshot whose second item has the uid 0x01, against a parser that refuses it:
  the first item is written, the second is a panic.\<close>

lemma patch_resync_unparsable:
  "patch strictRefEnv exampleState ''nodes''
     (Resync [JObj exampleNode1, JObj [(''metadata'', JObj [(''uid'', JStr [CHR 0x01])])]]) =
   (Panic,
    \<lparr>mirror = [''pods'' \<mapsto> Map.empty, ''nodes'' \<mapsto> [''u1'' \<mapsto> JObj exampleNode1]],
     trace = [TxnOpened, Wrote AddOp ''nodes'' ''u1'' (Some (JObj exampleNode1)), TxnClosed]\<rparr>)"
  by (simp add: patch_def patchOp_Add uidAt_def strAt_def exampleNode1_def strictRefEnv_def
      exampleEnv_def exampleState_def)

lemma uids_of_items:
  "list_all2 (\<lambda>item uid. uidAt item = Some uid) items uids \<Longrightarrow>
   zip uids items = map (\<lambda>item. (the (uidAt item), item)) items"
  by (induction items uids rule: list_all2_induct) simp_all

lemma patch_resync_order:
  assumes a: "list_all2 (\<lambda>item uid. uidAt item = Some uid) items uids"
    and b: "list_all2 (\<lambda>item uid. uidAt item = Some uid) items' uids'"
    and perm: "mset items' = mset items"
    and dist: "distinct uids"
    and ref: "list_all (refParses env rt) uids"
    and txn: "\<forall>s. newTransaction env s = None"
    and root: "mirror st rt = Some d"
  shows "mirror (snd (patch env st rt (Resync items'))) =
         mirror (snd (patch env st rt (Resync items)))"
proof -
  let ?f = "\<lambda>item. (the (uidAt item), item)"
  have za: "zip uids items = map ?f items" and zb: "zip uids' items' = map ?f items'"
    using a b by (simp_all add: uids_of_items)
  from a have la: "length uids = length items" by (simp add: list_all2_lengthD)
  from b have lb: "length uids' = length items'" by (simp add: list_all2_lengthD)
  have ua: "uids = map fst (zip uids items)" using la by simp
  have ub: "uids' = map fst (zip uids' items')" using lb by simp
  from perm have pz: "mset (zip uids' items') = mset (zip uids items)"
    by (simp add: za zb)
  then have "mset (map fst (zip uids' items')) = mset (map fst (zip uids items))"
    by (metis mset_map)
  with ua ub have mu: "mset uids' = mset uids" by simp
  with dist have dist': "distinct uids'" by (metis mset_eq_imp_distinct_iff)
  from mu have "set uids' = set uids" by (rule mset_eq_setD)
  with ref have ref': "list_all (refParses env rt) uids'" by (simp add: list_all_iff)
  from pz have "set (rev (zip uids' items')) = set (rev (zip uids items))"
    by (metis mset_eq_setD set_rev)
  moreover have "distinct (map fst (rev (zip uids items)))"
    using dist la by (simp add: rev_map [symmetric])
  moreover have "distinct (map fst (rev (zip uids' items')))"
    using dist' lb by (simp add: rev_map [symmetric])
  ultimately have "map_of (rev (zip uids' items')) = map_of (rev (zip uids items))"
    by (simp add: map_of_inject_set)
  with patchItems_all [OF a ref txn root] patchItems_all [OF b ref' txn root] show ?thesis
    by (simp add: patch_def)
qed

section \<open>Properties of the scheduler\<close>

text \<open>
  C9. A pod document without a string at \<^verbatim>\<open>metadata.uid\<close> (no metadata object, no uid
  key, or a uid that is not a string) makes \<^verbatim>\<open>schedulePod\<close> return the malformed-object
  error at once: the state is the one it was called in, so no transaction has been
  opened and nothing has been written, and the pod is untouched.
\<close>

theorem schedulePod_missing_uid:
  assumes "strAt pod ''metadata'' ''uid'' = None"
  shows "schedulePod env st pod = (Return (Some (MalformedObject (JObj pod))), st, pod)"
  using assms by (simp add: schedulePod_def getUID_def getMetadata_strAt)

theorem schedulePod_missing_uid_witness:
  "strAt [(''metadata'', JObj [(''uid'', JNum 7)])] ''metadata'' ''uid'' = None \<and>
   schedulePod exampleEnv exampleState [(''metadata'', JObj [(''uid'', JNum 7)])] =
     (Return (Some (MalformedObject (JObj [(''metadata'', JObj [(''uid'', JNum 7)])]))),
      exampleState, [(''metadata'', JObj [(''uid'', JNum 7)])])"
  using schedulePod_missing_uid [of "[(''metadata'', JObj [(''uid'', JNum 7)])]" exampleEnv exampleState]
  by (simp add: strAt_def)

text \<open>
  C3. For a pod with a string \<^verbatim>\<open>metadata.uid\<close>, when the transaction opens and the oracle
  answers with an undefined result or with the empty mapping, \<^verbatim>\<open>schedulePod\<close> returns no
  error, leaves the pod and the contents of the Mirror as they were and issues no store
  write: all it does is open the transaction, query, log one line and close.
\<close>

theorem schedulePod_no_decision:
  assumes uid: "strAt pod ''metadata'' ''uid'' = Some uid"
    and txn: "newTransaction env st = None"
    and srt: "sortContract (sortRankings env)"
    and q: "query env (mirror st) pod = Inr res"
    and res: "res = Undefined \<or> res = Value (JObj [])"
  shows "\<exists>st' line. schedulePod env st pod = (Return None, st', pod) \<and>
           mirror st' = mirror st \<and> writes st' = writes st \<and>
           trace st' = trace st @ [TxnOpened, Queried pod, Logged line, TxnClosed]"
proof -
  from strAt_SomeD [OF uid] obtain md where md: "map_of pod ''metadata'' = Some (JObj md)"
    by blast
  from res have "\<exists>line. schedulePod_query env (emit TxnOpened st) uid pod =
      (Return None, emit (Logged line) (emit (Queried pod) (emit TxnOpened st)), pod)"
  proof
    assume "res = Undefined"
    with md q have "schedulePod_query env (emit TxnOpened st) uid pod =
      (Return None, emit (Logged (LogUndefined (map_of md ''name'')))
         (emit (Queried pod) (emit TxnOpened st)), pod)"
      by (simp add: schedulePod_query_def)
    then show ?thesis by blast
  next
    assume "res = Value (JObj [])"
    with md q sortContract_Nil [OF srt] have "schedulePod_query env (emit TxnOpened st) uid pod =
      (Return None, emit (Logged (LogNoNodes (map_of md ''name'')))
         (emit (Queried pod) (emit TxnOpened st)), pod)"
      by (simp add: schedulePod_query_def schedulePod_select_def)
    then show ?thesis by blast
  qed
  then obtain line where
    "schedulePod_query env (emit TxnOpened st) uid pod =
      (Return None, emit (Logged line) (emit (Queried pod) (emit TxnOpened st)), pod)" ..
  from schedulePod_opened [OF uid txn this] show ?thesis
    by (simp add: writes_def)
qed

theorem schedulePod_no_decision_witness:
  "strAt examplePod ''metadata'' ''uid'' = Some ''p1'' \<and>
   newTransaction emptyEnv exampleState = None \<and>
   sortContract (sortRankings emptyEnv) \<and>
   query emptyEnv (mirror exampleState) examplePod = Inr (Value (JObj [])) \<and>
   (\<exists>st' line. schedulePod emptyEnv exampleState examplePod = (Return None, st', examplePod) \<and>
      mirror st' = mirror exampleState \<and> writes st' = writes exampleState \<and>
      trace st' = trace exampleState @ [TxnOpened, Queried examplePod, Logged line, TxnClosed])"
proof -
  have h1: "strAt examplePod ''metadata'' ''uid'' = Some ''p1''"
    by (simp add: strAt_def examplePod_def)
  have h2: "newTransaction emptyEnv exampleState = None" by (simp add: emptyEnv_def exampleEnv_def)
  have h3: "sortContract (sortRankings emptyEnv)"
    by (simp add: emptyEnv_def exampleEnv_def sortContract_sort_key)
  have h4: "query emptyEnv (mirror exampleState) examplePod = Inr (Value (JObj []))"
    by (simp add: emptyEnv_def exampleEnv_def)
  from schedulePod_no_decision [OF h1 h2 h3 h4] h1 h2 h3 h4 show ?thesis by blast
qed

text \<open>
  C4. A mapping one of whose values is not a number is a malformed result, for which
  the scheduler is to log and return without error. On the oracle answer
  \<^verbatim>\<open>{"node-1": "high"}\<close> the unchecked assertion \<^verbatim>\<open>v.(float64)\<close> panics instead: nothing is
  logged and nothing is returned. (Results that are not mappings are logged as
  malformed and return no error: \<open>schedulePod_malformed_shape\<close>.)
\<close>

theorem schedulePod_nonnumeric_weight_panics:
  "schedulePod nonNumericEnv exampleState examplePod =
     (Panic, exampleState\<lparr>trace := [TxnOpened, Queried examplePod, TxnClosed]\<rparr>, examplePod)"
  by (simp add: schedulePod_def schedulePod_query_def getUID_def getMetadata_def
      nonNumericEnv_def exampleEnv_def examplePod_def exampleState_def emit_def)

text \<open>
  C5. \<^verbatim>\<open>bindPod\<close> returns an error exactly when the pod has no string at
  \<^verbatim>\<open>metadata.name\<close>, \<^verbatim>\<open>spec.nodeName\<close> or \<^verbatim>\<open>metadata.namespace\<close>, or the request cannot be
  built, or the client cannot be built, or the request fails in transport, or the status
  of the response is above 201. Once request and client are built, a response with a
  status of at most 201 is a success, after one POST.
\<close>

theorem bindPod_error_iff:
  "(fst (bindPod env st pod) \<noteq> None \<longleftrightarrow>
     strAt pod ''metadata'' ''name'' = None \<or>
     strAt pod ''spec'' ''nodeName'' = None \<or>
     strAt pod ''metadata'' ''namespace'' = None \<or>
     (\<exists>name node ns.
        strAt pod ''metadata'' ''name'' = Some name \<and>
        strAt pod ''spec'' ''nodeName'' = Some node \<and>
        strAt pod ''metadata'' ''namespace'' = Some ns \<and>
        (newRequest env (reqURL (bindingRequest env name node ns)) \<noteq> None \<or>
         clientFor env \<noteq> None \<or>
         (\<exists>e. httpDo env (bindingRequest env name node ns) = Inl e) \<or>
         (\<exists>code. httpDo env (bindingRequest env name node ns) = Inr code \<and> 201 < code)))) \<and>
   (\<forall>name node ns code.
      strAt pod ''metadata'' ''name'' = Some name \<and>
      strAt pod ''spec'' ''nodeName'' = Some node \<and>
      strAt pod ''metadata'' ''namespace'' = Some ns \<and>
      newRequest env (reqURL (bindingRequest env name node ns)) = None \<and>
      clientFor env = None \<and>
      httpDo env (bindingRequest env name node ns) = Inr code \<and> code \<le> 201 \<longrightarrow>
      bindPod env st pod = (None, emit (Posted (bindingRequest env name node ns)) st))"
  by (auto simp: bindPod_strAt split: option.splits sum.splits)

theorem bindPod_error_iff_witness:
  "strAt placedPod ''metadata'' ''name'' = Some ''a'' \<and>
   strAt placedPod ''spec'' ''nodeName'' = Some ''n3'' \<and>
   strAt placedPod ''metadata'' ''namespace'' = Some ''ns'' \<and>
   newRequest exampleEnv (reqURL (bindingRequest exampleEnv ''a'' ''n3'' ''ns'')) = None \<and>
   clientFor exampleEnv = None \<and>
   httpDo exampleEnv (bindingRequest exampleEnv ''a'' ''n3'' ''ns'') = Inr 201 \<and>
   bindPod exampleEnv exampleState placedPod =
     (None, emit (Posted (bindingRequest exampleEnv ''a'' ''n3'' ''ns'')) exampleState) \<and>
   fst (bindPod rejectingEnv exampleState placedPod) \<noteq> None"
proof -
  have h: "strAt placedPod ''metadata'' ''name'' = Some ''a''"
    "strAt placedPod ''spec'' ''nodeName'' = Some ''n3''"
    "strAt placedPod ''metadata'' ''namespace'' = Some ''ns''"
    by (simp_all add: strAt_def placedPod_def)
  have e: "newRequest exampleEnv (reqURL (bindingRequest exampleEnv ''a'' ''n3'' ''ns'')) = None"
    "clientFor exampleEnv = None"
    "httpDo exampleEnv (bindingRequest exampleEnv ''a'' ''n3'' ''ns'') = Inr 201"
    by (simp_all add: exampleEnv_def)
  have r: "httpDo rejectingEnv (bindingRequest rejectingEnv ''a'' ''n3'' ''ns'') = Inr 500"
    by (simp add: rejectingEnv_def)
  from bindPod_error_iff [of exampleEnv exampleState placedPod] h e
  have 1: "bindPod exampleEnv exampleState placedPod =
     (None, emit (Posted (bindingRequest exampleEnv ''a'' ''n3'' ''ns'')) exampleState)"
    by simp
  from bindPod_error_iff [of rejectingEnv exampleState placedPod] h r
  have 2: "fst (bindPod rejectingEnv exampleState placedPod) \<noteq> None"
    by simp
  from h e 1 2 show ?thesis by simp
qed

text \<open>
  The claim as first stated leaves out the errors of building the request and the
  client: here the pod is complete and the control plane would answer 201, yet
  \<^verbatim>\<open>bindPod\<close> returns the error of \<^verbatim>\<open>clientFor\<close>, without sending anything.
\<close>

theorem bindPod_client_error_counterexample:
  "strAt placedPod ''metadata'' ''name'' = Some ''a'' \<and>
   strAt placedPod ''spec'' ''nodeName'' = Some ''n3'' \<and>
   strAt placedPod ''metadata'' ''namespace'' = Some ''ns'' \<and>
   httpDo noClientEnv (bindingRequest noClientEnv ''a'' ''n3'' ''ns'') = Inr 201 \<and>
   bindPod noClientEnv exampleState placedPod = (Some (External ''no transport''), exampleState)"
  by (simp add: bindPod_strAt strAt_def placedPod_def noClientEnv_def exampleEnv_def)

text \<open>
  C6. For an Incremental event handed to \<^verbatim>\<open>schedule\<close>, an added event is one call of
  \<^verbatim>\<open>schedulePod\<close> on its document; a modified or deleted event returns no error with the
  state as it was (no transaction, no query, no write, no log). The two cannot be
  confused: a call of \<^verbatim>\<open>schedulePod\<close> always fails or leaves effects in the trace.
\<close>

theorem schedule_sync:
  "(ty = Added \<longrightarrow>
      schedule env st rt (Sync ty ob) =
        (case schedulePod env st ob of (r, st1, ob') \<Rightarrow> (r, st1, Sync ty ob'))) \<and>
   (ty \<noteq> Added \<longrightarrow> schedule env st rt (Sync ty ob) = (Return None, st, Sync ty ob)) \<and>
   (schedule env st rt (Sync ty ob) = (Return None, st, Sync ty ob) \<longleftrightarrow> ty \<noteq> Added)"
proof -
  have "schedule env st rt (Sync Added ob) \<noteq> (Return None, st, Sync Added ob)"
  proof
    assume a: "schedule env st rt (Sync Added ob) = (Return None, st, Sync Added ob)"
    obtain r s p where sp: "schedulePod env st ob = (r, s, p)" by (metis prod_cases3)
    with a have "r = Return None" "s = st" "p = ob" by (simp_all add: schedule_def)
    with sp schedulePod_not_silent [of env st ob] show False by simp
  qed
  then show ?thesis by (cases ty) (simp_all add: schedule_def)
qed

theorem schedule_sync_witness:
  "schedule undefinedEnv exampleState ''pods'' (Sync Modified examplePod) =
     (Return None, exampleState, Sync Modified examplePod) \<and>
   schedule undefinedEnv exampleState ''pods'' (Sync Deleted examplePod) =
     (Return None, exampleState, Sync Deleted examplePod) \<and>
   schedule undefinedEnv exampleState ''pods'' (Sync Added examplePod) =
     (case schedulePod undefinedEnv exampleState examplePod of
        (r, st1, ob') \<Rightarrow> (r, st1, Sync Added ob')) \<and>
   schedule undefinedEnv exampleState ''pods'' (Sync Added examplePod) \<noteq>
     (Return None, exampleState, Sync Added examplePod)"
proof -
  have m: "schedule undefinedEnv exampleState ''pods'' (Sync Modified examplePod) =
     (Return None, exampleState, Sync Modified examplePod)"
    using schedule_sync [of Modified undefinedEnv exampleState "''pods''" examplePod] by simp
  have d: "schedule undefinedEnv exampleState ''pods'' (Sync Deleted examplePod) =
     (Return None, exampleState, Sync Deleted examplePod)"
    using schedule_sync [of Deleted undefinedEnv exampleState "''pods''" examplePod] by simp
  have a: "schedule undefinedEnv exampleState ''pods'' (Sync Added examplePod) =
     (case schedulePod undefinedEnv exampleState examplePod of
        (r, st1, ob') \<Rightarrow> (r, st1, Sync Added ob'))"
    using schedule_sync [of Added undefinedEnv exampleState "''pods''" examplePod] by blast
  have n: "schedule undefinedEnv exampleState ''pods'' (Sync Added examplePod) \<noteq>
     (Return None, exampleState, Sync Added examplePod)"
    using schedule_sync [of Added undefinedEnv exampleState "''pods''" examplePod] by blast
  from m d a n show ?thesis by (intro conjI)
qed

text \<open>
  C8. Applying \<^verbatim>\<open>patch\<close> to the same added event a second time leaves the contents of the
  Mirror as the first application left them; when the first application succeeds the document is stored under its uid and the second write is
  the same Add of the same document at the same path.
\<close>

theorem patch_added_twice:
  "mirror (snd (patch env (snd (patch env st rt (Sync Added ob))) rt (Sync Added ob))) =
     mirror (snd (patch env st rt (Sync Added ob))) \<and>
   (fst (patch env st rt (Sync Added ob)) = Return None \<and>
    fst (patch env (snd (patch env st rt (Sync Added ob))) rt (Sync Added ob)) = Return None \<longrightarrow>
      (\<exists>uid d. uidAt (JObj ob) = Some uid \<and>
         mirror (snd (patch env st rt (Sync Added ob))) rt = Some d \<and>
         d uid = Some (JObj ob) \<and>
         writes (snd (patch env (snd (patch env st rt (Sync Added ob))) rt (Sync Added ob))) =
           writes (snd (patch env st rt (Sync Added ob))) @ [Wrote AddOp rt uid (Some (JObj ob))]))"
  by (auto simp: patch_def patchOp_Add writes_def split: option.splits)

theorem patch_added_twice_witness:
  "fst (patch exampleEnv exampleState ''nodes'' (Sync Added exampleNode)) = Return None \<and>
   fst (patch exampleEnv (snd (patch exampleEnv exampleState ''nodes'' (Sync Added exampleNode)))
      ''nodes'' (Sync Added exampleNode)) = Return None \<and>
   mirror (snd (patch exampleEnv exampleState ''nodes'' (Sync Added exampleNode))) ''nodes'' =
     Some [''u2'' \<mapsto> JObj exampleNode] \<and>
   mirror (snd (patch exampleEnv (snd (patch exampleEnv exampleState ''nodes'' (Sync Added exampleNode)))
      ''nodes'' (Sync Added exampleNode))) =
     mirror (snd (patch exampleEnv exampleState ''nodes'' (Sync Added exampleNode)))"
proof -
  have 1: "fst (patch exampleEnv exampleState ''nodes'' (Sync Added exampleNode)) = Return None"
    by (simp add: patch_def patchOp_Add uidAt_def strAt_def exampleNode_def exampleEnv_def exampleState_def)
  have 2: "mirror (snd (patch exampleEnv exampleState ''nodes'' (Sync Added exampleNode))) ''nodes'' =
     Some [''u2'' \<mapsto> JObj exampleNode]"
    by (simp add: patch_def patchOp_Add uidAt_def strAt_def exampleNode_def exampleEnv_def exampleState_def)
  have 3: "fst (patch exampleEnv (snd (patch exampleEnv exampleState ''nodes'' (Sync Added exampleNode)))
      ''nodes'' (Sync Added exampleNode)) = Return None"
    by (simp add: patch_def patchOp_Add uidAt_def strAt_def exampleNode_def exampleEnv_def exampleState_def)
  from patch_added_twice [of exampleEnv exampleState "''nodes''" exampleNode] 1 2 3
  show ?thesis by simp
qed

text \<open>
  C2. When the oracle answers with a non-empty mapping from node identifiers to
  weights, the node that \<^verbatim>\<open>schedulePod\<close> writes into \<^verbatim>\<open>spec.nodeName\<close> of the pod is a key of
  the mapping whose weight no other weight of the mapping exceeds. This holds for every
  order in which the mapping is visited and every sort that keeps \<^verbatim>\<open>sort.Sort\<close>'s
  contract, and on every way out of the function after the choice (write failure,
  binding failure, success).
\<close>

theorem schedulePod_selects_maximum:
  assumes uid: "strAt pod ''metadata'' ''uid'' = Some uid"
    and txn: "newTransaction env st = None"
    and srt: "sortContract (sortRankings env)"
    and q: "query env (mirror st) pod = Inr (Value (weightsDoc ws))"
    and ne: "ws \<noteq> []"
    and dist: "distinct (map fst ws)"
    and spec: "map_of pod ''spec'' = Some (JObj spec)"
    and run: "schedulePod env st pod = (r, st', pod')"
  shows "\<exists>node w. strAt pod' ''spec'' ''nodeName'' = Some node \<and> map_of ws node = Some w \<and>
           (\<forall>k v. map_of ws k = Some v \<longrightarrow> v \<le> w)"
proof -
  from schedulePod_selected [OF uid txn srt q ne spec] run
  obtain node w where in_ws: "(node, w) \<in> set ws" and le: "\<forall>(k, v)\<in>set ws. v \<le> w"
    and pod': "pod' = setKey ''spec'' (JObj (setKey ''nodeName'' (JStr node) spec)) pod"
    by auto
  from pod' have "strAt pod' ''spec'' ''nodeName'' = Some node" by (simp add: strAt_setKey)
  moreover from dist in_ws have "map_of ws node = Some w" by simp
  moreover have "v \<le> w" if "map_of ws k = Some v" for k v
    using map_of_SomeD [OF that] le by auto
  ultimately show ?thesis by blast
qed

theorem schedulePod_selects_maximum_witness:
  "strAt examplePod ''metadata'' ''uid'' = Some ''p1'' \<and>
   newTransaction exampleEnv exampleState = None \<and>
   sortContract (sortRankings exampleEnv) \<and>
   query exampleEnv (mirror exampleState) examplePod = Inr (Value (weightsDoc exampleWeights)) \<and>
   exampleWeights \<noteq> [] \<and>
   distinct (map fst exampleWeights) \<and>
   map_of examplePod ''spec'' = Some (JObj []) \<and>
   (\<exists>node w. strAt (snd (snd (schedulePod exampleEnv exampleState examplePod))) ''spec'' ''nodeName'' =
        Some node \<and> map_of exampleWeights node = Some w \<and> w = 9/10)"
proof -
  have run: "schedulePod exampleEnv exampleState examplePod =
     (fst (schedulePod exampleEnv exampleState examplePod),
      fst (snd (schedulePod exampleEnv exampleState examplePod)),
      snd (snd (schedulePod exampleEnv exampleState examplePod)))"
    by simp
  from schedulePod_selects_maximum [OF example_hyps(1) example_hyps(2) example_hyps(4)
      example_hyps(6) example_hyps(8) example_hyps(9) example_hyps(10) run]
  obtain node w where
    n: "strAt (snd (snd (schedulePod exampleEnv exampleState examplePod))) ''spec'' ''nodeName'' = Some node"
    and w: "map_of exampleWeights node = Some w"
    and mx: "\<forall>k v. map_of exampleWeights k = Some v \<longrightarrow> v \<le> w"
    by blast
  have "map_of exampleWeights ''n2'' = Some (9/10)" by (simp add: exampleWeights_def)
  with mx have "9/10 \<le> w" by blast
  moreover from w have "w \<le> 9/10" by (auto simp: exampleWeights_def split: if_splits)
  ultimately have "w = 9/10" by simp
  with n w example_hyps show ?thesis by blast
qed

text \<open>
  C1. In a scheduling attempt where the oracle answers with a non-empty mapping of
  weights and the binding of the placed pod fails (for any reason \<^verbatim>\<open>bindPod\<close> reports:
  a transport error, a status above 201, or another of its errors), \<^verbatim>\<open>schedulePod\<close>
  returns that binding error, and the entry it added at \<^verbatim>\<open>data.pods[uid]\<close> is gone when
  it returns: the store has seen the Add of the placed pod followed by the Remove at
  the same path, and \<^verbatim>\<open>data.pods\<close> holds no entry for the uid. The binding is reached only
  when the pod has a spec object, the path \<^verbatim>\<open>data.pods[uid]\<close> parses and \<^verbatim>\<open>data.pods\<close>
  exists, which the hypotheses say; with a path that does not parse the call panics
  before the write (\<open>schedulePod_unparsable\<close>).
\<close>

theorem schedulePod_bind_failure:
  assumes uid: "strAt pod ''metadata'' ''uid'' = Some uid"
    and txn: "newTransaction env st = None"
    and srt: "sortContract (sortRankings env)"
    and q: "query env (mirror st) pod = Inr (Value (weightsDoc ws))"
    and ne: "ws \<noteq> []"
    and spec: "map_of pod ''spec'' = Some (JObj spec)"
    and ref: "refParses env ''pods'' uid"
    and root: "mirror st ''pods'' = Some d"
    and run: "schedulePod env st pod = (r, st', pod')"
    and bind: "fst (bindPod env s pod') = Some e"
  shows "r = Return (Some e) \<and>
         mirror st' = (mirror st)(''pods'' \<mapsto> d(uid := None)) \<and>
         writes st' = writes st @
           [Wrote AddOp ''pods'' uid (Some (JObj pod')), Wrote RemoveOp ''pods'' uid None]"
proof -
  let ?st0 = "emit (Queried pod) (emit TxnOpened st)"
  from schedulePod_selected [OF uid txn srt q ne spec] run ref obtain name node where
    r: "r = fst (schedulePod_commit env ?st0 uid name node pod')"
    and st': "st' = emit TxnClosed (snd (schedulePod_commit env ?st0 uid name node pod'))"
    and pod': "pod' = setKey ''spec'' (JObj (setKey ''nodeName'' (JStr node) spec)) pod"
    by auto
  have c: "schedulePod_commit env ?st0 uid name node pod' =
      (r, snd (schedulePod_commit env ?st0 uid name node pod'))"
    using r by simp
  have root0: "mirror ?st0 ''pods'' = Some d" using root by simp
  from commit_bind_failure [OF root0 bind c]
  show ?thesis using st' by (simp add: writes_def)
qed

theorem schedulePod_bind_failure_witness:
  "strAt examplePod ''metadata'' ''uid'' = Some ''p1'' \<and>
   newTransaction rejectingEnv exampleState = None \<and>
   sortContract (sortRankings rejectingEnv) \<and>
   query rejectingEnv (mirror exampleState) examplePod = Inr (Value (weightsDoc exampleWeights)) \<and>
   exampleWeights \<noteq> [] \<and>
   map_of examplePod ''spec'' = Some (JObj []) \<and>
   refParses rejectingEnv ''pods'' ''p1'' \<and>
   mirror exampleState ''pods'' = Some Map.empty \<and>
   fst (bindPod rejectingEnv exampleState placedPod) =
     Some (HTTPError (bindingRequest rejectingEnv ''a'' ''n3'' ''ns'') 500) \<and>
   fst (schedulePod rejectingEnv exampleState examplePod) =
     Return (Some (HTTPError (bindingRequest rejectingEnv ''a'' ''n3'' ''ns'') 500)) \<and>
   mirror (fst (snd (schedulePod rejectingEnv exampleState examplePod))) ''pods'' = Some Map.empty \<and>
   writes (fst (snd (schedulePod rejectingEnv exampleState examplePod))) =
     [Wrote AddOp ''pods'' ''p1'' (Some (JObj placedPod)), Wrote RemoveOp ''pods'' ''p1'' None]"
proof -
  have run: "schedulePod rejectingEnv exampleState examplePod =
     (fst (schedulePod rejectingEnv exampleState examplePod),
      fst (snd (schedulePod rejectingEnv exampleState examplePod)), placedPod)"
    using rejecting_pod by (simp add: prod_eq_iff)
  have bind: "fst (bindPod rejectingEnv exampleState placedPod) =
     Some (HTTPError (bindingRequest rejectingEnv ''a'' ''n3'' ''ns'') 500)"
    by (simp add: bindPod_strAt strAt_def placedPod_def rejectingEnv_def exampleEnv_def)
  have w0: "writes exampleState = []" by (simp add: writes_def exampleState_def)
  have ref: "refParses rejectingEnv ''pods'' ''p1''"
    by (simp add: rejectingEnv_def exampleEnv_def)
  from schedulePod_bind_failure [OF example_hyps(1) example_hyps(3) example_hyps(5)
      example_hyps(7) example_hyps(8) example_hyps(10) ref example_hyps(11) run bind]
  show ?thesis using example_hyps bind w0 ref by simp
qed

text \<open>
  C10. \<^verbatim>\<open>schedulePod\<close> changes the pod it is given: once a node is chosen, the caller's
  pod is the original one with \<^verbatim>\<open>spec.nodeName\<close> set to that node, whatever happens
  afterwards; in particular it stays so when the binding fails and the Mirror entry is
  removed again (the witness runs against a control plane that answers 500).
\<close>

theorem schedulePod_mutates_pod:
  assumes uid: "strAt pod ''metadata'' ''uid'' = Some uid"
    and txn: "newTransaction env st = None"
    and srt: "sortContract (sortRankings env)"
    and q: "query env (mirror st) pod = Inr (Value (weightsDoc ws))"
    and ne: "ws \<noteq> []"
    and spec: "map_of pod ''spec'' = Some (JObj spec)"
    and run: "schedulePod env st pod = (r, st', pod')"
  shows "\<exists>node. node \<in> fst ` set ws \<and>
           pod' = setKey ''spec'' (JObj (setKey ''nodeName'' (JStr node) spec)) pod \<and>
           strAt pod' ''spec'' ''nodeName'' = Some node"
proof -
  from schedulePod_selected [OF uid txn srt q ne spec] run
  obtain node w where in_ws: "(node, w) \<in> set ws"
    and pod': "pod' = setKey ''spec'' (JObj (setKey ''nodeName'' (JStr node) spec)) pod"
    by auto
  from in_ws have "node \<in> fst ` set ws" by force
  with pod' strAt_setKey show ?thesis by blast
qed

theorem schedulePod_mutates_pod_witness:
  "strAt examplePod ''metadata'' ''uid'' = Some ''p1'' \<and>
   newTransaction rejectingEnv exampleState = None \<and>
   sortContract (sortRankings rejectingEnv) \<and>
   query rejectingEnv (mirror exampleState) examplePod = Inr (Value (weightsDoc exampleWeights)) \<and>
   exampleWeights \<noteq> [] \<and>
   map_of examplePod ''spec'' = Some (JObj []) \<and>
   (\<exists>node. snd (snd (schedulePod rejectingEnv exampleState examplePod)) =
        setKey ''spec'' (JObj (setKey ''nodeName'' (JStr node) [])) examplePod \<and>
      strAt (snd (snd (schedulePod rejectingEnv exampleState examplePod))) ''spec'' ''nodeName'' =
        Some node)"
proof -
  have run: "schedulePod rejectingEnv exampleState examplePod =
     (fst (schedulePod rejectingEnv exampleState examplePod),
      fst (snd (schedulePod rejectingEnv exampleState examplePod)),
      snd (snd (schedulePod rejectingEnv exampleState examplePod)))"
    by simp
  from schedulePod_mutates_pod [OF example_hyps(1) example_hyps(3) example_hyps(5)
      example_hyps(7) example_hyps(8) example_hyps(10) run]
  show ?thesis using example_hyps by blast
qed

text \<open>
  C7. For a Resync handed to \<^verbatim>\<open>patch\<close> in which every item carries a string
  \<^verbatim>\<open>metadata.uid\<close> whose path \<^verbatim>\<open>data.<resourceType>[uid]\<close> parses, with transactions that
  open and an existing \<^verbatim>\<open>data.<resourceType>\<close>, the action returns no error and the store
  sees exactly one write per item, an Add of the item at \<^verbatim>\<open>data.<resourceType>[uid]\<close>, each
  in a transaction of its own, in the order of the snapshot. The statement holds for
  every order of the items; for pairwise distinct uids the resulting Mirror does not
  depend on the order (\<open>patch_resync_order\<close>).
\<close>

theorem patch_resync_upserts:
  assumes all: "list_all2 (\<lambda>item uid. uidAt item = Some uid) items uids"
    and ref: "list_all (refParses env rt) uids"
    and txn: "\<forall>s. newTransaction env s = None"
    and root: "mirror st rt = Some d"
  shows "\<exists>st'. patch env st rt (Resync items) = (Return None, st') \<and>
           writes st' = writes st @ map2 (\<lambda>uid item. Wrote AddOp rt uid (Some item)) uids items \<and>
           trace st' = trace st @ concat (map2 (\<lambda>uid item.
                [TxnOpened, Wrote AddOp rt uid (Some item), TxnClosed]) uids items) \<and>
           mirror st' = (mirror st)(rt \<mapsto> d ++ map_of (rev (zip uids items)))"
proof -
  from all have len: "length uids = length items" by (simp add: list_all2_lengthD)
  obtain r st' where p: "patchItems env st rt items = (r, st')" by fastforce
  with patchItems_all [OF all ref txn root] show ?thesis
    by (simp add: patch_def writes_def writes_concat [OF len])
qed

theorem patch_resync_upserts_witness:
  "list_all2 (\<lambda>item uid. uidAt item = Some uid) [JObj exampleNode1, JObj exampleNode] [''u1'', ''u2''] \<and>
   list_all (refParses strictRefEnv ''nodes'') [''u1'', ''u2''] \<and>
   (\<forall>s. newTransaction strictRefEnv s = None) \<and>
   mirror exampleState ''nodes'' = Some Map.empty \<and>
   (\<exists>st'. patch strictRefEnv exampleState ''nodes'' (Resync [JObj exampleNode1, JObj exampleNode]) =
        (Return None, st') \<and>
      writes st' = [Wrote AddOp ''nodes'' ''u1'' (Some (JObj exampleNode1)),
                    Wrote AddOp ''nodes'' ''u2'' (Some (JObj exampleNode))] \<and>
      mirror st' ''nodes'' = Some [''u1'' \<mapsto> JObj exampleNode1, ''u2'' \<mapsto> JObj exampleNode])"
proof -
  have a: "list_all2 (\<lambda>item uid. uidAt item = Some uid) [JObj exampleNode1, JObj exampleNode] [''u1'', ''u2'']"
    by (simp add: uidAt_def strAt_def exampleNode_def exampleNode1_def)
  have p: "list_all (refParses strictRefEnv ''nodes'') [''u1'', ''u2'']"
    by (simp add: strictRefEnv_def)
  have t: "(\<forall>s. newTransaction strictRefEnv s = None)" by (simp add: strictRefEnv_def exampleEnv_def)
  have r: "mirror exampleState ''nodes'' = Some Map.empty" by (simp add: exampleState_def)
  have w0: "writes exampleState = []" by (simp add: writes_def exampleState_def)
  from patch_resync_upserts [OF a p t r] obtain st' where
    "patch strictRefEnv exampleState ''nodes'' (Resync [JObj exampleNode1, JObj exampleNode]) =
       (Return None, st')"
    "writes st' = writes exampleState @
       map2 (\<lambda>uid item. Wrote AddOp ''nodes'' uid (Some item)) [''u1'', ''u2''] [JObj exampleNode1, JObj exampleNode]"
    "mirror st' = (mirror exampleState)(''nodes'' \<mapsto>
       Map.empty ++ map_of (rev (zip [''u1'', ''u2''] [JObj exampleNode1, JObj exampleNode])))"
    by blast
  with w0 have "patch strictRefEnv exampleState ''nodes'' (Resync [JObj exampleNode1, JObj exampleNode]) =
        (Return None, st') \<and>
      writes st' = [Wrote AddOp ''nodes'' ''u1'' (Some (JObj exampleNode1)),
                    Wrote AddOp ''nodes'' ''u2'' (Some (JObj exampleNode))] \<and>
      mirror st' ''nodes'' = Some [''u1'' \<mapsto> JObj exampleNode1, ''u2'' \<mapsto> JObj exampleNode]"
    by (simp add: fun_upd_twist)
  with a p t r show ?thesis by blast
qed

text \<open>
  Without the conditions on the items the claim fails: the loop returns at the first
  error, so an item that follows a malformed one is never written although it has a
  uid (and a uid whose path does not parse is a panic: \<open>patch_resync_unparsable\<close>).
\<close>

theorem patch_resync_stops_counterexample:
  "uidAt (JObj exampleNode) = Some ''u2'' \<and>
   patch exampleEnv exampleState ''nodes'' (Resync [JObj [], JObj exampleNode]) =
     (Return (Some (MalformedObject (JObj []))), exampleState)"
  by (simp add: patch_def patchOp_Add uidAt_def strAt_def exampleNode_def)

end
